theory Spec2Isabelle
  imports Main "HOL-Library.Sublist"
begin

section \<open>JavaScript values of the node editor\<close>

text \<open>
  The editor in \<open>features/modals/NodeModal/index.tsx\<close> works on what \<open>JSON.parse\<close>
  returns and on what its own writes make of it. A value is \<open>undefined\<close> (what the spec
  calls Missing), \<open>null\<close>, a boolean, a number, a string, an array or a plain object.
  An array carries its elements and, since JavaScript lets a string key be assigned on an
  array, its named properties; a hole left by a write past the end reads as
  \<open>undefined\<close> and is kept as \<open>JUndef\<close>. An object is its own properties in the order
  JavaScript enumerates them. Numbers are integers here: no claim depends on fractions.

  Only own properties are modelled. Members inherited from the prototypes
  (\<open>toString\<close>, \<open>constructor\<close>, the \<open>__proto__\<close> accessor, ...) are outside the model.
\<close>

datatype jv =
    JUndef
  | JNull
  | JBool bool
  | JNum int
  | JStr string
  | JArr "jv list" "(string \<times> jv) list"
  | JObj "(string \<times> jv) list"

datatype error = TypeError | RangeError | SyntaxError | Unmodelled

text \<open>A path segment is a string or a number (an array index, a natural number).\<close>

datatype seg = SKey string | SIdx nat

subsection \<open>Property keys\<close>

text \<open>
  Every property key is a string: \<open>ref[0]\<close> and \<open>ref["0"]\<close> name the same property.
  \<open>dec\<close> is the decimal text of a number, \<open>undec\<close> reads it back, and a key is an array
  index when it is the decimal text of a number below \<open>2^32 - 1\<close>.
\<close>

definition digit :: "nat \<Rightarrow> char" where
  "digit d = ''0123456789'' ! d"

function dec :: "nat \<Rightarrow> string" where
  "dec n = (if n < 10 then [digit n] else dec (n div 10) @ [digit (n mod 10)])"
  by pat_completeness auto
termination
  by (relation "measure id") auto

declare dec.simps [simp del]

definition undec :: "string \<Rightarrow> nat" where
  "undec s = foldl (\<lambda>a c. 10 * a + (of_char c - 48)) 0 s"

definition index_of_key :: "string \<Rightarrow> nat option" where
  "index_of_key k =
     (if dec (undec k) = k \<and> undec k < 4294967295 then Some (undec k) else None)"

fun to_key :: "seg \<Rightarrow> string" where
  "to_key (SKey s) = s"
| "to_key (SIdx n) = dec n"

fun is_number :: "seg \<Rightarrow> bool" where
  "is_number (SIdx n) = True"
| "is_number (SKey s) = False"

subsection \<open>Tests on values\<close>

text \<open>\<open>x == null\<close> holds of \<open>null\<close> and \<open>undefined\<close>; \<open>typeof x === "object"\<close> holds of
  \<open>null\<close>, arrays and objects.\<close>

fun nullish :: "jv \<Rightarrow> bool" where
  "nullish JUndef = True"
| "nullish JNull = True"
| "nullish v = False"

fun typeof_object :: "jv \<Rightarrow> bool" where
  "typeof_object JNull = True"
| "typeof_object (JArr xs ps) = True"
| "typeof_object (JObj kvs) = True"
| "typeof_object v = False"

fun isArray :: "jv \<Rightarrow> bool" where
  "isArray (JArr xs ps) = True"
| "isArray v = False"


subsection \<open>Reading and writing one property\<close>

definition lookup :: "(string \<times> jv) list \<Rightarrow> string \<Rightarrow> jv" where
  "lookup kvs k = (case map_of kvs k of Some v \<Rightarrow> v | None \<Rightarrow> JUndef)"

text \<open>
  \<open>ref[key]\<close> as a read. It throws a TypeError on \<open>null\<close> and \<open>undefined\<close>. A number or a
  boolean has no own property. A string has its characters and its length.
\<close>

fun prop_get :: "jv \<Rightarrow> string \<Rightarrow> error + jv" where
  "prop_get JUndef k = Inl TypeError"
| "prop_get JNull k = Inl TypeError"
| "prop_get (JBool b) k = Inr JUndef"
| "prop_get (JNum n) k = Inr JUndef"
| "prop_get (JStr s) k =
     (case index_of_key k of
        Some i \<Rightarrow> Inr (if i < length s then JStr [s ! i] else JUndef)
      | None \<Rightarrow> Inr (if k = ''length'' then JNum (int (length s)) else JUndef))"
| "prop_get (JArr xs ps) k =
     (case index_of_key k of
        Some i \<Rightarrow> Inr (if i < length xs then xs ! i else JUndef)
      | None \<Rightarrow> Inr (if k = ''length'' then JNum (int (length xs)) else lookup ps k))"
| "prop_get (JObj kvs) k = Inr (lookup kvs k)"

text \<open>
  An assignment \<open>obj[k] = v\<close> on the properties of an object: an existing key keeps its
  place; a new array-index key goes among the index keys in ascending order, which come
  first; any other new key goes to the end.
\<close>

fun replace_first :: "string \<Rightarrow> jv \<Rightarrow> (string \<times> jv) list \<Rightarrow> (string \<times> jv) list" where
  "replace_first k v [] = []"
| "replace_first k v (p # ps) = (if fst p = k then (k, v) # ps else p # replace_first k v ps)"

fun ins_index :: "nat \<Rightarrow> string \<Rightarrow> jv \<Rightarrow> (string \<times> jv) list \<Rightarrow> (string \<times> jv) list" where
  "ins_index i k v [] = [(k, v)]"
| "ins_index i k v (p # ps) =
     (case index_of_key (fst p) of
        Some j \<Rightarrow> if j < i then p # ins_index i k v ps else (k, v) # p # ps
      | None \<Rightarrow> (k, v) # p # ps)"

definition obj_put :: "string \<Rightarrow> jv \<Rightarrow> (string \<times> jv) list \<Rightarrow> (string \<times> jv) list" where
  "obj_put k v kvs =
     (if map_of kvs k \<noteq> None then replace_first k v kvs
      else case index_of_key k of
             Some i \<Rightarrow> ins_index i k v kvs
           | None \<Rightarrow> kvs @ [(k, v)])"

text \<open>
  \<open>arr.length = v\<close>: the value is converted to a number, which must be an integer from
  \<open>0\<close> to \<open>2^32 - 1\<close>, else a RangeError is thrown. The conversion of a string or of an
  array to a number is not modelled.
\<close>

fun set_length :: "jv list \<Rightarrow> int \<Rightarrow> error + jv list" where
  "set_length xs n =
     (if 0 \<le> n \<and> n < 4294967296
      then Inr (take (nat n) xs @ replicate (nat n - length xs) JUndef)
      else Inl RangeError)"

fun array_length_put :: "jv list \<Rightarrow> jv \<Rightarrow> error + jv list" where
  "array_length_put xs JUndef = Inl RangeError"
| "array_length_put xs JNull = set_length xs 0"
| "array_length_put xs (JBool b) = set_length xs (if b then 1 else 0)"
| "array_length_put xs (JNum n) = set_length xs n"
| "array_length_put xs (JObj kvs) = Inl RangeError"
| "array_length_put xs (JStr s) = Inl Unmodelled"
| "array_length_put xs (JArr ys ps) = Inl Unmodelled"

text \<open>
  \<open>ref[key] = v\<close> as a write, returning the container after the write. The file is an ES
  module, so it runs in strict mode: the assignment throws a TypeError on \<open>null\<close> and
  \<open>undefined\<close> and also on a number, a boolean or a string. A write past the end of an
  array leaves holes.
\<close>

fun prop_set :: "jv \<Rightarrow> string \<Rightarrow> jv \<Rightarrow> error + jv" where
  "prop_set (JObj kvs) k v = Inr (JObj (obj_put k v kvs))"
| "prop_set (JArr xs ps) k v =
     (case index_of_key k of
        Some i \<Rightarrow>
          Inr (JArr (if i < length xs then xs[i := v]
                     else xs @ replicate (i - length xs) JUndef @ [v]) ps)
      | None \<Rightarrow>
          if k = ''length''
          then (case array_length_put xs v of
                  Inl e \<Rightarrow> Inl e
                | Inr ys \<Rightarrow> Inr (JArr ys ps))
          else Inr (JArr xs (obj_put k v ps)))"
| "prop_set r k v = Inl TypeError"

section \<open>PathResolver: getAtPath and setAtPath\<close>

text \<open>
  \<open>getAtPath\<close> (lines 32-39): the loop over the path returns \<open>undefined\<close> as soon as the
  reference is \<open>null\<close> or \<open>undefined\<close>, and reads the next property otherwise.
\<close>

fun getAtPath :: "jv \<Rightarrow> seg list \<Rightarrow> error + jv" where
  "getAtPath ref [] = Inr ref"
| "getAtPath ref (key # path) =
     (if nullish ref then Inr JUndef
      else case prop_get ref (to_key key) of
             Inl e \<Rightarrow> Inl e
           | Inr r \<Rightarrow> getAtPath r path)"

text \<open>
  \<open>setAtPath\<close> (lines 40-53). The source mutates \<open>root\<close> in place and returns it, or
  returns \<open>value\<close> for the empty path and leaves \<open>root\<close> alone. \<open>set_walk ref key rest value\<close>
  is the loop and the final assignment, on a non-empty path: it returns the object \<open>ref\<close>
  refers to after the writes. At a segment that is not the last, the property is read; when
  it is \<open>null\<close>, \<open>undefined\<close> or not of type object it is assigned a new array (next
  segment a number) or a new object; the reference moves to the property as read again;
  the writes below it show in \<open>ref\<close>, since the property holds a reference to them.
\<close>

fun fresh :: "seg \<Rightarrow> jv" where
  "fresh nxt = (if is_number nxt then JArr [] [] else JObj [])"

fun set_walk :: "jv \<Rightarrow> seg \<Rightarrow> seg list \<Rightarrow> jv \<Rightarrow> error + jv" where
  "set_walk ref key [] v = prop_set ref (to_key key) v"
| "set_walk ref key (nxt # rest) v =
     (case prop_get ref (to_key key) of
        Inl e \<Rightarrow> Inl e
      | Inr cur \<Rightarrow>
          (case (if nullish cur \<or> \<not> typeof_object cur
                 then prop_set ref (to_key key) (fresh nxt)
                 else Inr ref) of
             Inl e \<Rightarrow> Inl e
           | Inr ref1 \<Rightarrow>
               (case prop_get ref1 (to_key key) of
                  Inl e \<Rightarrow> Inl e
                | Inr child \<Rightarrow>
                    (case set_walk child nxt rest v of
                       Inl e \<Rightarrow> Inl e
                     | Inr child' \<Rightarrow> prop_set ref1 (to_key key) child'))))"

text \<open>The result of \<open>setAtPath\<close> is the pair of \<open>root\<close> after the call and the value returned.\<close>

fun setAtPath :: "jv \<Rightarrow> seg list \<Rightarrow> jv \<Rightarrow> error + (jv \<times> jv)" where
  "setAtPath root [] v = Inr (root, v)"
| "setAtPath root (key # path) v =
     (case set_walk root key path v of
        Inl e \<Rightarrow> Inl e
      | Inr root' \<Rightarrow> Inr (root', root'))"


section \<open>Text of values: template literals and JSON.stringify\<close>

text \<open>
  A character of a string stands for one code unit below 256. \<open>show_int\<close> is the text
  of an integer as JavaScript prints a number.
\<close>

definition show_int :: "int \<Rightarrow> string" where
  "show_int i = (if i < 0 then ''-'' @ dec (nat (- i)) else dec (nat i))"

fun join :: "string \<Rightarrow> string list \<Rightarrow> string" where
  "join sep [] = []"
| "join sep [x] = x"
| "join sep (x # y # ys) = x @ sep @ join sep (y # ys)"

text \<open>
  \<open>`${v}`\<close>, the conversion of a value to a string: a string is itself; \<open>null\<close> and
  \<open>undefined\<close> are their names; an array is its elements joined by commas, with \<open>null\<close>
  and \<open>undefined\<close> elements empty; a plain object is \<open>[object Object]\<close>.
\<close>

fun toString :: "jv \<Rightarrow> string" where
  "toString JUndef = ''undefined''"
| "toString JNull = ''null''"
| "toString (JBool b) = (if b then ''true'' else ''false'')"
| "toString (JNum i) = show_int i"
| "toString (JStr s) = s"
| "toString (JArr xs ps) = join '','' (map (\<lambda>x. if nullish x then [] else toString x) xs)"
| "toString (JObj kvs) = ''[object Object]''"

text \<open>
  The quoting of a string by \<open>JSON.stringify\<close>: the double quote and the backslash are
  escaped, a control character below \<open>0x20\<close> is written by its short escape or as
  \<open>\u00XX\<close>, every other character is itself.
\<close>

definition hexdigit :: "nat \<Rightarrow> char" where
  "hexdigit d = ''0123456789abcdef'' ! d"

definition quote_char :: "char \<Rightarrow> string" where
  "quote_char c =
     (if c = CHR 0x22 then [CHR 0x5C, CHR 0x22]
      else if c = CHR 0x5C then [CHR 0x5C, CHR 0x5C]
      else if c = CHR 0x08 then [CHR 0x5C, CHR ''b'']
      else if c = CHR 0x09 then [CHR 0x5C, CHR ''t'']
      else if c = CHR 0x0A then [CHR 0x5C, CHR ''n'']
      else if c = CHR 0x0C then [CHR 0x5C, CHR ''f'']
      else if c = CHR 0x0D then [CHR 0x5C, CHR ''r'']
      else if (of_char c :: nat) < 32
      then [CHR 0x5C, CHR ''u'', CHR ''0'', CHR ''0'',
            hexdigit (of_char c div 16), hexdigit (of_char c mod 16)]
      else [c])"

definition quote :: "string \<Rightarrow> string" where
  "quote s = [CHR 0x22] @ concat (map quote_char s) @ [CHR 0x22]"

text \<open>
  \<open>JSON.stringify(v, null, 2)\<close> at nesting depth \<open>n\<close>. An \<open>undefined\<close> element of an array
  is written \<open>null\<close>; a property whose value is \<open>undefined\<close> is left out; the named
  properties of an array are not written. Of \<open>undefined\<close> itself \<open>JSON.stringify\<close>
  returns \<open>undefined\<close>, no text.
\<close>

definition pad :: "nat \<Rightarrow> string" where
  "pad n = replicate (2 * n) CHR '' ''"

definition block :: "char \<Rightarrow> char \<Rightarrow> nat \<Rightarrow> string list \<Rightarrow> string" where
  "block opn cls n items =
     (if items = [] then [opn, cls]
      else [opn, CHR 0x0A] @ pad (Suc n) @ join ([CHR '','', CHR 0x0A] @ pad (Suc n)) items
           @ [CHR 0x0A] @ pad n @ [cls])"

fun ser :: "nat \<Rightarrow> jv \<Rightarrow> string" where
  "ser n JUndef = ''null''"
| "ser n JNull = ''null''"
| "ser n (JBool b) = (if b then ''true'' else ''false'')"
| "ser n (JNum i) = show_int i"
| "ser n (JStr s) = quote s"
| "ser n (JArr xs ps) = block CHR ''['' CHR '']'' n (map (\<lambda>x. ser (Suc n) x) xs)"
| "ser n (JObj kvs) =
     block CHR ''{'' CHR ''}'' n
       (map (\<lambda>(k, v). quote k @ '': '' @ ser (Suc n) v)
            (filter (\<lambda>(k, v). v \<noteq> JUndef) kvs))"

definition JSON_stringify :: "jv \<Rightarrow> string option" where
  "JSON_stringify v = (if v = JUndef then None else Some (ser 0 v))"

section \<open>RowNormalizer: normalizeNodeData\<close>

text \<open>
  Modelled from the spec: the type \<open>NodeData\<close> is declared in \<open>types/graph\<close>, which is not
  among the sources. The spec gives a row as a key (an optional string), a value (any
  JSON value) and a type tag; these are the three fields the function reads. \<open>None\<close> is
  the absent key.
\<close>

record row =
  row_key :: "string option"
  row_value :: jv
  row_type :: string

text \<open>\<open>!key\<close> and \<open>if (key)\<close>: the key is falsy when it is absent or the empty string.\<close>

fun truthy :: "string option \<Rightarrow> bool" where
  "truthy None = False"
| "truthy (Some k) = (k \<noteq> [])"

text \<open>The body of the \<open>forEach\<close> (lines 16-20), on the object built so far.\<close>

definition add_row :: "(string \<times> jv) list \<Rightarrow> row \<Rightarrow> (string \<times> jv) list" where
  "add_row obj r =
     (if row_type r \<noteq> ''array'' \<and> row_type r \<noteq> ''object''
      then (case row_key r of
              None \<Rightarrow> obj
            | Some k \<Rightarrow> if k \<noteq> [] then obj_put k (row_value r) obj else obj)
      else obj)"

text \<open>
  \<open>normalizeNodeData\<close> (lines 11-22); \<open>None\<close> is an absent row list. The serialised
  value is an object, of which \<open>JSON.stringify\<close> always returns text.
\<close>

definition normalizeNodeData :: "row list option \<Rightarrow> string" where
  "normalizeNodeData nodeRows =
     (case nodeRows of
        None \<Rightarrow> ''{}''
      | Some rows \<Rightarrow>
          (case rows of
             [] \<Rightarrow> ''{}''
           | r # rest \<Rightarrow>
               if rest = [] \<and> \<not> truthy (row_key r) then toString (row_value r)
               else ser 0 (JObj (foldl add_row [] rows))))"






section \<open>Texts that JSON.parse accepts\<close>














section \<open>SaveCoordinator: handleSave\<close>

text \<open>
  The state the handler reads and writes: the three state variables of the component and
  the document store, which \<open>getJson\<close> reads and \<open>setContents\<close> replaces.
\<close>

record session =
  isEditing :: bool
  draft :: string
  draftError :: "string option"
  contents :: string
  hasChanges :: bool

text \<open>
  \<open>Object.entries\<close> of a plain object, and the loop of line 107, which assigns every entry
  on the object \<open>currentAtPath\<close> refers to.
\<close>

fun entries :: "jv \<Rightarrow> (string \<times> jv) list" where
  "entries (JObj kvs) = kvs"
| "entries v = []"

fun assign_all :: "jv \<Rightarrow> (string \<times> jv) list \<Rightarrow> error + jv" where
  "assign_all cur [] = Inr cur"
| "assign_all cur ((k, v) # es) =
     (case prop_set cur k v of
        Inl e \<Rightarrow> Inl e
      | Inr cur' \<Rightarrow> assign_all cur' es)"

text \<open>
  \<open>currentAtPath\<close> is a reference into \<open>root\<close>, which \<open>JSON.parse\<close> built as a tree without
  sharing: what the loop assigns on it shows in \<open>root\<close> at the place \<open>getAtPath\<close> found it.
  \<open>write_through ref path new\<close> is \<open>ref\<close> with the object at \<open>path\<close> in its state \<open>new\<close>.
\<close>

fun write_through :: "jv \<Rightarrow> seg list \<Rightarrow> jv \<Rightarrow> error + jv" where
  "write_through ref [] new = Inr new"
| "write_through ref (key # path) new =
     (case prop_get ref (to_key key) of
        Inl e \<Rightarrow> Inl e
      | Inr child \<Rightarrow>
          (case write_through child path new of
             Inl e \<Rightarrow> Inl e
           | Inr child' \<Rightarrow> prop_set ref (to_key key) child'))"

text \<open>
  The test of lines 98-105 on one value, and lines 96-113: \<open>root\<close> as it is when
  \<open>JSON.stringify\<close> is reached. The value \<open>setAtPath\<close> returns is not used.
\<close>

definition plain_object :: "jv \<Rightarrow> bool" where
  "plain_object v = (v \<noteq> JNull \<and> typeof_object v \<and> \<not> isArray v)"

definition save_root :: "jv \<Rightarrow> seg list \<Rightarrow> jv \<Rightarrow> error + jv" where
  "save_root root path parsedDraft =
     (case getAtPath root path of
        Inl e \<Rightarrow> Inl e
      | Inr currentAtPath \<Rightarrow>
          if plain_object parsedDraft \<and> plain_object currentAtPath
          then (case assign_all currentAtPath (entries parsedDraft) of
                  Inl e \<Rightarrow> Inl e
                | Inr merged \<Rightarrow> write_through root path merged)
          else (case setAtPath root path parsedDraft of
                  Inl e \<Rightarrow> Inl e
                | Inr (root', returned) \<Rightarrow> Inr root'))"

text \<open>
  Modelled from the spec: the stores \<open>useJson\<close> and \<open>useFile\<close> are not among the sources.
  The spec gives them as one document store: \<open>getJson\<close> returns the text it holds, and
  \<open>setContents\<close>, called with the new text and \<open>hasChanges: true\<close>, replaces that text and
  sets the flag. \<open>setIsEditing\<close> is the setter of the component's own state.
\<close>

definition getJson :: "session \<Rightarrow> string" where
  "getJson st = contents st"

definition setContents :: "string \<Rightarrow> session \<Rightarrow> session" where
  "setContents updatedStr st = st\<lparr>contents := updatedStr, hasChanges := True\<rparr>"

definition setIsEditing :: "bool \<Rightarrow> session \<Rightarrow> session" where
  "setIsEditing b st = st\<lparr>isEditing := b\<rparr>"

text \<open>
  \<open>JSON.parse\<close> is the platform's and is a parameter \<open>parse\<close>. \<open>isDraftValid\<close> is
  whether the draft parses. \<open>try_block\<close> is the body of the \<open>try\<close> (lines 92-121): it
  returns the state reached, or the error thrown together with the state at the throw,
  since a \<open>catch\<close> undoes nothing. What the store makes of \<open>undefined\<close>, which
  \<open>JSON.stringify\<close> returns of \<open>undefined\<close>, is not modelled; \<open>JSON.parse\<close> never returns
  \<open>undefined\<close>.
\<close>

definition isDraftValid :: "(string \<Rightarrow> error + jv) \<Rightarrow> session \<Rightarrow> bool" where
  "isDraftValid parse st = (case parse (draft st) of Inl e \<Rightarrow> False | Inr v \<Rightarrow> True)"

definition try_block ::
  "(string \<Rightarrow> error + jv) \<Rightarrow> seg list \<Rightarrow> session \<Rightarrow> (error \<times> session) + session" where
  "try_block parse path st =
     (case parse (getJson st) of
        Inl e \<Rightarrow> Inl (e, st)
      | Inr root \<Rightarrow>
          (case parse (draft st) of
             Inl e \<Rightarrow> Inl (e, st)
           | Inr parsedDraft \<Rightarrow>
               (case save_root root path parsedDraft of
                  Inl e \<Rightarrow> Inl (e, st)
                | Inr root' \<Rightarrow>
                    (case JSON_stringify root' of
                       None \<Rightarrow> Inl (Unmodelled, st)
                     | Some updatedStr \<Rightarrow>
                         Inr (setIsEditing False (setContents updatedStr st))))))"

text \<open>\<open>handleSave\<close> (lines 87-125): the guard, the \<open>try\<close>, and a \<open>catch\<close> that only logs.\<close>

definition handleSave :: "(string \<Rightarrow> error + jv) \<Rightarrow> seg list \<Rightarrow> session \<Rightarrow> session" where
  "handleSave parse path st =
     (if \<not> isEditing st \<or> \<not> isDraftValid parse st then st
      else case try_block parse path st of
             Inl (e, st') \<Rightarrow> st'
           | Inr st' \<Rightarrow> st')"

text \<open>
  For the worked examples: \<open>JSON.parse\<close> on the few texts they use. The text \<open>{\<close> is not
  JSON; any text that is not listed is outside the table.
\<close>

definition parse_table :: "string \<Rightarrow> error + jv" where
  \<open>parse_table text =
     (if text = ''{"doc":{"a":1,"b":{"x":1}}}''
      then Inr (JObj [(''doc'', JObj [(''a'', JNum 1), (''b'', JObj [(''x'', JNum 1)])])])
      else if text = ''{"a":2}'' then Inr (JObj [(''a'', JNum 2)])
      else if text = ''{"k":[1,2,3]}''
      then Inr (JObj [(''k'', JArr [JNum 1, JNum 2, JNum 3] [])])
      else if text = ''{"a":1}'' then Inr (JObj [(''a'', JNum 1)])
      else if text = ''null'' then Inr JNull
      else if text = ''5'' then Inr (JNum 5)
      else if text = ''{'' then Inl SyntaxError
      else Inl Unmodelled)\<close>

section \<open>Properties of keys and of single reads and writes\<close>


lemma undec_snoc: "undec (s @ [c]) = 10 * undec s + (of_char c - 48)"
  by (simp add: undec_def)

lemma undec_digit: "d < 10 \<Longrightarrow> of_char (digit d) - 48 = d"
proof -
  assume "d < 10"
  then have "d \<in> {0, 1, 2, 3, 4, 5, 6, 7, 8, 9}" by auto
  then show ?thesis by (auto simp: digit_def)
qed

lemma undec_dec: "undec (dec n) = n"
proof (induction n rule: dec.induct)
  case (1 n)
  show ?case
  proof (cases "n < 10")
    case True
    then show ?thesis using undec_digit [of n] by (simp add: dec.simps [of n] undec_def)
  next
    case False
    then show ?thesis using 1 by (simp add: dec.simps [of n] undec_snoc undec_digit)
  qed
qed

lemma index_of_key_dec: "index_of_key (dec n) = (if n < 4294967295 then Some n else None)"
  by (simp add: index_of_key_def undec_dec)


lemma length_not_index: "index_of_key ''length'' = None"
  by (simp add: index_of_key_def undec_def dec.simps)

lemma map_of_replace_first:
  "map_of (replace_first k v kvs) = (if map_of kvs k = None then map_of kvs else (map_of kvs)(k \<mapsto> v))"
  by (induction kvs) (auto simp: fun_eq_iff)

lemma map_of_ins_index:
  "map_of kvs k = None \<Longrightarrow> map_of (ins_index i k v kvs) = (map_of kvs)(k \<mapsto> v)"
  by (induction kvs) (auto simp: fun_eq_iff split: option.splits)

lemma map_of_obj_put: "map_of (obj_put k v kvs) = (map_of kvs)(k \<mapsto> v)"
  by (auto simp: obj_put_def map_of_replace_first map_of_ins_index fun_eq_iff map_add_def
      split: option.splits)





lemma dec_inject: "dec m = dec n \<longleftrightarrow> m = n"
  by (metis undec_dec)






















lemmas eval_simps = lookup_def obj_put_def index_of_key_def undec_def dec.simps digit_def

section \<open>PathResolver: reading\<close>



section \<open>PathResolver: writing\<close>











subsection \<open>Why the conditions are there\<close>

text \<open>
  The length of an array is not an ordinary property: a path through it throws, since
  the length cannot hold an object.
\<close>

lemma setAtPath_through_length:
  "setAtPath (JArr [JNum 1] []) [SKey ''length'', SKey ''a''] (JNum 1) = Inl RangeError"
  by (simp add: eval_simps)

text \<open>A write past the end of an array changes what the path \<open>["length"]\<close> reads.\<close>

lemma setAtPath_changes_length:
  "setAtPath (JArr [JNum 1] []) [SIdx 2] JNull
     = Inr (JArr [JNum 1, JUndef, JNull] [], JArr [JNum 1, JUndef, JNull] []) \<and>
   getAtPath (JArr [JNum 1] []) [SKey ''length''] = Inr (JNum 1) \<and>
   getAtPath (JArr [JNum 1, JUndef, JNull] []) [SKey ''length''] = Inr (JNum 3)"
  by (simp add: eval_simps)

text \<open>
  The segments \<open>0\<close> and \<open>"0"\<close> differ and name the same property: the paths \<open>[0]\<close> and
  \<open>["0"]\<close> are no prefixes of each other, and a write at one shows at the other.
\<close>

lemma setAtPath_number_key_is_string_key:
  "setAtPath (JObj [(''0'', JNum 1)]) [SIdx 0] JNull
     = Inr (JObj [(''0'', JNull)], JObj [(''0'', JNull)]) \<and>
   getAtPath (JObj [(''0'', JNum 1)]) [SKey ''0''] = Inr (JNum 1) \<and>
   getAtPath (JObj [(''0'', JNull)]) [SKey ''0''] = Inr JNull"
  by (simp add: eval_simps)

text \<open>In strict mode a property cannot be created on a number.\<close>

lemma setAtPath_scalar_root_throws:
  "setAtPath (JNum 5) [SKey ''a''] JNull = Inl TypeError"
  by simp

section \<open>SaveCoordinator: merge or replace\<close>










lemma setAtPath_root:
  "setAtPath root (key # rest) v = Inr (r, ret) \<Longrightarrow> ret = r \<and> set_walk root key rest v = Inr r"
  by (auto split: sum.splits)




text \<open>
  On the empty path \<open>setAtPath\<close> returns the draft and leaves \<open>root\<close> alone, and
  \<open>handleSave\<close> does not use what it returns: the document \<open>{"a":1}\<close> saved with the draft
  \<open>5\<close> at the empty path is committed again as it was.
\<close>

lemma handleSave_empty_path:
  \<open>handleSave parse_table []
     \<lparr>isEditing = True, draft = ''5'', draftError = None, contents = ''{"a":1}'',
      hasChanges = False\<rparr>
   = \<lparr>isEditing = False, draft = ''5'', draftError = None,
      contents = ser 0 (JObj [(''a'', JNum 1)]), hasChanges = True\<rparr>\<close>
  by (simp add: parse_table_def handleSave_def isDraftValid_def try_block_def getJson_def setContents_def setIsEditing_def save_root_def
      plain_object_def JSON_stringify_def)

section \<open>SaveCoordinator: failure\<close>



section \<open>RowNormalizer\<close>





lemma keys_obj_put: "fst ` set (obj_put k v kvs) = insert k (fst ` set kvs)"
proof -
  have "dom (map_of (obj_put k v kvs)) = insert k (dom (map_of kvs))"
    by (simp add: map_of_obj_put)
  then show ?thesis by (simp add: dom_map_of_conv_image_fst)
qed

lemma keys_add_row: "[] \<notin> fst ` set obj \<Longrightarrow> [] \<notin> fst ` set (add_row obj r)"
  by (auto simp: add_row_def keys_obj_put split: option.splits simp del: image_insert)

lemma keys_foldl_add_row: "[] \<notin> fst ` set obj \<Longrightarrow> [] \<notin> fst ` set (foldl add_row obj rows)"
  by (induction rows arbitrary: obj) (simp_all add: keys_add_row del: image_insert)

lemma add_row_empty_key: "row_key r = Some [] \<Longrightarrow> add_row obj r = obj"
  by (simp add: add_row_def)

lemma foldl_add_row_drop:
  "foldl add_row obj (filter (\<lambda>r. row_key r \<noteq> Some []) rows) = foldl add_row obj rows"
  by (induction rows arbitrary: obj) (simp_all add: add_row_empty_key)

text \<open>
  Claim C10. A key that is the empty string counts as absent. One row with the empty key
  gives the text of its value. With two rows or more, the result is the serialisation of
  the object built from the rows whose key is not the empty string. The object built never
  has the empty string as a key.
\<close>

theorem normalizeNodeData_empty_key:
  "(row_key r = Some [] \<longrightarrow> normalizeNodeData (Some [r]) = toString (row_value r)) \<and>
   (2 \<le> length rows \<longrightarrow>
      normalizeNodeData (Some rows)
        = ser 0 (JObj (foldl add_row [] (filter (\<lambda>r. row_key r \<noteq> Some []) rows)))) \<and>
   [] \<notin> fst ` set (foldl add_row [] rows)"
proof (intro conjI impI)
  assume "row_key r = Some []"
  then show "normalizeNodeData (Some [r]) = toString (row_value r)"
    by (simp add: normalizeNodeData_def)
next
  assume "2 \<le> length rows"
  then obtain r1 r2 rest where "rows = r1 # r2 # rest"
    by (cases rows; cases "tl rows") auto
  then show "normalizeNodeData (Some rows)
        = ser 0 (JObj (foldl add_row [] (filter (\<lambda>r. row_key r \<noteq> Some []) rows)))"
    unfolding foldl_add_row_drop by (simp add: normalizeNodeData_def)
next
  show "[] \<notin> fst ` set (foldl add_row [] rows)"
    by (rule keys_foldl_add_row) simp
qed

text \<open>The empty key with the value \<open>hello\<close> alone, and beside a row \<open>a\<close>.\<close>

theorem normalizeNodeData_empty_key_witness:
  "row_key \<lparr>row_key = Some [], row_value = JStr ''hello'', row_type = ''string''\<rparr> = Some [] \<and>
   normalizeNodeData
     (Some [\<lparr>row_key = Some [], row_value = JStr ''hello'', row_type = ''string''\<rparr>])
     = ''hello'' \<and>
   2 \<le> length [\<lparr>row_key = Some [], row_value = JNum 1, row_type = ''number''\<rparr>,
                \<lparr>row_key = Some ''a'', row_value = JNum 2, row_type = ''number''\<rparr>] \<and>
   normalizeNodeData
     (Some [\<lparr>row_key = Some [], row_value = JNum 1, row_type = ''number''\<rparr>,
            \<lparr>row_key = Some ''a'', row_value = JNum 2, row_type = ''number''\<rparr>])
     = ser 0 (JObj [(''a'', JNum 2)])"
  using normalizeNodeData_empty_key
    [of "\<lparr>row_key = Some [], row_value = JStr ''hello'', row_type = ''string''\<rparr>"
        "[\<lparr>row_key = Some [], row_value = JNum 1, row_type = ''number''\<rparr>,
          \<lparr>row_key = Some ''a'', row_value = JNum 2, row_type = ''number''\<rparr>]"]
  by (simp add: add_row_def eval_simps)

section \<open>The recogniser accepts what JSON.stringify writes\<close>
































end
